theory Spec2Isabelle
  imports Main "HOL-Library.Word"
begin

section \<open>The query object of \<^verbatim>\<open>itkSQLQuery\<close>\<close>

text \<open>
  The class \<^verbatim>\<open>SQLQuery\<close> (\<^verbatim>\<open>Source/itkSQLQuery.h\<close>, \<^verbatim>\<open>Source/itkSQLQuery.cxx\<close>) is the
  abstract base of the SQL query classes.  Its members are \<^verbatim>\<open>m_Query\<close>, \<^verbatim>\<open>m_Database\<close>
  and \<^verbatim>\<open>m_Active\<close>.  The record below adds the one piece of inherited state that the
  methods of the file touch: the modification stamp that \<^verbatim>\<open>this->Modified()\<close> advances.
  The database is held by reference; \<^verbatim>\<open>NULL\<close> is \<open>None\<close>.
\<close>

record SQLQuery =
  m_Query :: string
  m_Database :: "nat option"
  m_Active :: bool
  MTime :: nat

text \<open>
  The constructor sets \<^verbatim>\<open>m_Database = NULL\<close> and \<^verbatim>\<open>m_Active = false\<close>; the
  \<^verbatim>\<open>std::string\<close> member is default-constructed, hence empty.  The stamp the
  superclass constructor leaves is an argument.
\<close>

definition SQLQuery_ctor :: "nat \<Rightarrow> SQLQuery" where
  "SQLQuery_ctor mtime = \<lparr>m_Query = [], m_Database = None, m_Active = False, MTime = mtime\<rparr>"


definition Modified :: "SQLQuery \<Rightarrow> SQLQuery" where
  "Modified this = this\<lparr>MTime := Suc (MTime this)\<rparr>"

text \<open>
  \<^verbatim>\<open>itkErrorMacro\<close> reports a message out of band and the method then returns
  \<^verbatim>\<open>false\<close>.  The three messages of the file are the values of one datatype; a method
  that can report returns its \<^verbatim>\<open>bool\<close>, the messages it reported, and the object.
\<close>

datatype vtk_type =
    VTK_STRING | VTK_FLOAT | VTK_DOUBLE
  | VTK_CHAR | VTK_UNSIGNED_CHAR | VTK_SIGNED_CHAR
  | VTK_SHORT | VTK_UNSIGNED_SHORT
  | VTK_INT | VTK_UNSIGNED_INT
  | VTK_LONG | VTK_UNSIGNED_LONG
  | VTK___INT64 | VTK_UNSIGNED___INT64
  | VTK_LONG_LONG | VTK_UNSIGNED_LONG_LONG
  | VTK_OBJECT
  | VTK_OTHER nat

datatype diagnostic =
    NoBoundParameters
      \<comment> \<open>\<^verbatim>\<open>This database driver does not support bound parameters.\<close>\<close>
  | ObjectVariant
      \<comment> \<open>\<^verbatim>\<open>Variants of type VTK_OBJECT cannot be inserted into a database.\<close>\<close>
  | UnsupportedVariantType vtk_type
      \<comment> \<open>\<^verbatim>\<open>Variants of type <n> are not currently supported by BindParameter.\<close>\<close>

type_synonym bind_result = "bool \<times> diagnostic list \<times> SQLQuery"


section \<open>EscapeString\<close>

abbreviation quote :: char where
  "quote \<equiv> CHR 0x27"

text \<open>
  The \<^verbatim>\<open>for\<close> loop of \<^verbatim>\<open>EscapeString\<close> walks the iterator over \<^verbatim>\<open>s\<close> and appends to
  \<^verbatim>\<open>d\<close>: first a quote when the character is a quote, then the character.
\<close>

fun EscapeString_loop :: "string \<Rightarrow> string \<Rightarrow> string" where
  "EscapeString_loop [] d = d"
| "EscapeString_loop (c # it) d =
     EscapeString_loop it ((if c = quote then d @ [quote] else d) @ [c])"

definition EscapeString :: "string \<Rightarrow> bool \<Rightarrow> string" where
  "EscapeString s addSurroundingQuotes =
     (let d0 = [];
          d1 = (if addSurroundingQuotes then d0 @ [quote] else d0);
          d2 = EscapeString_loop s d1;
          d3 = (if addSurroundingQuotes then d2 @ [quote] else d2)
      in d3)"

text \<open>
  The second \<^verbatim>\<open>EscapeString\<close> of the file copies its argument and calls
  \<^verbatim>\<open>this->EscapeString( sstr, addSurroundingQuotes )\<close>.  The two definitions of the
  \<^verbatim>\<open>.cxx\<close> file have the same signature, and the header declares one overload taking the
  string by value and one taking it by reference, so the call does not name its target by
  type.  It is taken here to be the first definition, as the header says of the second
  method: ``This method simply calls the std::string variant''.
\<close>

definition EscapeString_wrapped :: "string \<Rightarrow> bool \<Rightarrow> string" where
  "EscapeString_wrapped src addSurroundingQuotes =
     (let sstr = src; dstr = EscapeString sstr addSurroundingQuotes in dstr)"

text \<open>
  The escaper as the specification words it: every single quote is emitted twice, every
  other character once, and a quote is put before and after when asked for.
\<close>

definition escape_char_spec :: "char \<Rightarrow> string" where
  "escape_char_spec c = (if c = quote then [quote, quote] else [c])"

definition escape_spec :: "string \<Rightarrow> bool \<Rightarrow> string" where
  "escape_spec input addSurroundingQuotes =
     (if addSurroundingQuotes then [quote] else [])
     @ concat (map escape_char_spec input)
     @ (if addSurroundingQuotes then [quote] else [])"

definition count_quotes :: "string \<Rightarrow> nat" where
  "count_quotes s = length (filter (\<lambda>c. c = quote) s)"


section \<open>SetQuery and GetQuery\<close>

text \<open>
  \<^verbatim>\<open>std::string::compare\<close> returns zero for equal strings and a negative or positive
  number by the first differing character (compared as unsigned bytes) or by length.
\<close>

fun string_compare :: "string \<Rightarrow> string \<Rightarrow> int" where
  "string_compare [] [] = 0"
| "string_compare [] (y # ys) = - 1"
| "string_compare (x # xs) [] = 1"
| "string_compare (x # xs) (y # ys) =
     (if x = y then string_compare xs ys
      else if (of_char x :: nat) < of_char y then - 1 else 1)"

text \<open>The operator \<^verbatim>\<open>!\<close> of C++ on an \<^verbatim>\<open>int\<close>, its \<^verbatim>\<open>bool\<close> result read as 0 or 1.\<close>

definition logical_not :: "int \<Rightarrow> int" where
  "logical_not x = (if x = 0 then 1 else 0)"

text \<open>
  The replacing branch follows the body of \<^verbatim>\<open>vtkSetStringMacro\<close>, in this order:
  \<^verbatim>\<open>n = strlen(queryString) + 1\<close>; \<^verbatim>\<open>cp1 = new char[n]\<close>; \<^verbatim>\<open>cp2 = (queryString)\<close>;
  \<^verbatim>\<open>m_Query = cp1\<close>; and only then the copy
  \<^verbatim>\<open>do { *cp1++ = *cp2++; } while ( --n )\<close>.  The member \<^verbatim>\<open>m_Query\<close> is a \<^verbatim>\<open>std::string\<close>, so
  the assignment copies the characters found at \<^verbatim>\<open>cp1\<close> up to the first zero at the moment
  it runs, when nothing has been written to the new array yet.  What the unwritten
  array holds is not decided by the program: it is the argument \<open>unwritten\<close> of
  \<open>SetQuery\<close> below.  The loop then fills the array with the argument as a C string (its
  characters followed by the terminating zero; \<^verbatim>\<open>n\<close> is at least 1, so \<^verbatim>\<open>--n\<close> never
  wraps), but nothing reads the array afterwards: \<open>SetQuery_buffer\<close> is what it holds
  in the end.
\<close>

abbreviation NUL :: char where
  "NUL \<equiv> CHR 0x00"

definition c_str :: "string \<Rightarrow> string" where
  "c_str s = s @ [NUL]"

fun strlen :: "string \<Rightarrow> nat" where
  "strlen [] = 0"
| "strlen (c # cs) = (if c = NUL then 0 else Suc (strlen cs))"

fun copy_chars :: "nat \<Rightarrow> string \<Rightarrow> string" where
  "copy_chars n [] = []"
| "copy_chars n (c # cp2) = c # (if n - 1 = 0 then [] else copy_chars (n - 1) cp2)"

definition string_of_buffer :: "string \<Rightarrow> string" where
  "string_of_buffer buf = take (strlen buf) buf"

definition SetQuery_buffer :: "string \<Rightarrow> string" where
  "SetQuery_buffer queryString =
     (let n = strlen (c_str queryString) + 1;
          cp2 = c_str queryString
      in copy_chars n cp2)"

definition SetQuery :: "string \<Rightarrow> string \<Rightarrow> SQLQuery \<Rightarrow> bool \<times> SQLQuery" where
  "SetQuery unwritten queryString this =
     (if m_Query this = [] \<and> queryString = [] then (True, this)
      else if m_Query this \<noteq> [] \<and> queryString \<noteq> []
              \<and> logical_not (string_compare (m_Query this) queryString) = 0
      then (True, this)
      else
        (let this1 =
           (if queryString \<noteq> [] then
              (let cp1 = unwritten
               in this\<lparr>m_Query := string_of_buffer cp1\<rparr>)
            else this\<lparr>m_Query := []\<rparr>)
         in (True, Modified this1)))"

text \<open>\<^verbatim>\<open>GetQuery\<close> returns the member (its debug output aside).\<close>

definition GetQuery :: "SQLQuery \<Rightarrow> string" where
  "GetQuery this = m_Query this"


section \<open>Transactions\<close>

text \<open>The three inline bodies of the header are \<^verbatim>\<open>{ return true; }\<close>.\<close>

definition BeginTransaction :: "SQLQuery \<Rightarrow> bool \<times> SQLQuery" where
  "BeginTransaction this = (True, this)"

definition CommitTransaction :: "SQLQuery \<Rightarrow> bool \<times> SQLQuery" where
  "CommitTransaction this = (True, this)"

definition RollbackTransaction :: "SQLQuery \<Rightarrow> bool \<times> SQLQuery" where
  "RollbackTransaction this = (True, this)"


section \<open>Typed parameter binding\<close>

text \<open>
  The overloads of \<^verbatim>\<open>BindParameter\<close> with a typed value are one function on the sum of
  their argument types, one constructor for each overload of \<^verbatim>\<open>itkSQLQuery.cxx\<close> in the
  order of the file.  Integers are words of the width of the C type (\<^verbatim>\<open>long\<close> taken as
  64 bits); \<^verbatim>\<open>float\<close> and \<^verbatim>\<open>double\<close> are their 32 and 64 bits, since no arithmetic is
  done on them here.  The index is a C \<^verbatim>\<open>int\<close>.
\<close>

datatype bind_value =
    Arg_unsigned_char "8 word"
  | Arg_signed_char "8 word"
  | Arg_unsigned_short "16 word"
  | Arg_short "16 word"
  | Arg_unsigned_int "32 word"
  | Arg_int "32 word"
  | Arg_unsigned_long "64 word"
  | Arg_long "64 word"
  | Arg_UInt64 "64 word"
  | Arg_Int64 "64 word"
  | Arg_float "32 word"
  | Arg_double "64 word"
  | Arg_c_string string
  | Arg_c_string_length string nat
  | Arg_std_string string
  | Arg_blob "8 word list" nat

text \<open>Every body reports the same message and returns \<^verbatim>\<open>false\<close>.\<close>

fun BindParameter :: "int \<Rightarrow> bind_value \<Rightarrow> SQLQuery \<Rightarrow> bind_result" where
  "BindParameter index (Arg_unsigned_char v) this = (False, [NoBoundParameters], this)"
| "BindParameter index (Arg_signed_char v) this = (False, [NoBoundParameters], this)"
| "BindParameter index (Arg_unsigned_short v) this = (False, [NoBoundParameters], this)"
| "BindParameter index (Arg_short v) this = (False, [NoBoundParameters], this)"
| "BindParameter index (Arg_unsigned_int v) this = (False, [NoBoundParameters], this)"
| "BindParameter index (Arg_int v) this = (False, [NoBoundParameters], this)"
| "BindParameter index (Arg_unsigned_long v) this = (False, [NoBoundParameters], this)"
| "BindParameter index (Arg_long v) this = (False, [NoBoundParameters], this)"
| "BindParameter index (Arg_UInt64 v) this = (False, [NoBoundParameters], this)"
| "BindParameter index (Arg_Int64 v) this = (False, [NoBoundParameters], this)"
| "BindParameter index (Arg_float v) this = (False, [NoBoundParameters], this)"
| "BindParameter index (Arg_double v) this = (False, [NoBoundParameters], this)"
| "BindParameter index (Arg_c_string v) this = (False, [NoBoundParameters], this)"
| "BindParameter index (Arg_c_string_length v n) this = (False, [NoBoundParameters], this)"
| "BindParameter index (Arg_std_string v) this = (False, [NoBoundParameters], this)"
| "BindParameter index (Arg_blob v n) this = (False, [NoBoundParameters], this)"

definition ClearParameterBindings :: "SQLQuery \<Rightarrow> bind_result" where
  "ClearParameterBindings this = (False, [NoBoundParameters], this)"


section \<open>Binding a variant\<close>

text \<open>
  \<^verbatim>\<open>vtkVariant\<close> belongs to VTK, not to this repository.  \<^verbatim>\<open>BindParameter(int, vtkVariant)\<close>
  uses \<^verbatim>\<open>IsValid()\<close>, \<^verbatim>\<open>GetType()\<close> and, under the case label of a type, the accessor of
  that type, which returns the value held.  A variant is therefore the invalid one, or a
  value tagged with its type: one constructor for each label of the \<^verbatim>\<open>switch\<close>, and
  \<open>VOther\<close> for a valid variant whose type is none of the labels, with the number of
  that type and the bytes it holds (the Dynamic Value of the specification can hold an
  opaque byte blob; the \<^verbatim>\<open>switch\<close> has no label for one).  The type is read only
  after \<^verbatim>\<open>IsValid()\<close> has held; the invalid variant is given the type number 0.
\<close>

datatype vtkVariant =
    VInvalid
  | VString string
  | VFloat "32 word"
  | VDouble "64 word"
  | VChar "8 word"
  | VUnsignedChar "8 word"
  | VSignedChar "8 word"
  | VShort "16 word"
  | VUnsignedShort "16 word"
  | VInt "32 word"
  | VUnsignedInt "32 word"
  | VLong "64 word"
  | VUnsignedLong "64 word"
  | V__Int64 "64 word"
  | VUnsigned__Int64 "64 word"
  | VLongLong "64 word"
  | VUnsignedLongLong "64 word"
  | VObject nat
  | VOther nat "8 word list"

fun IsValid :: "vtkVariant \<Rightarrow> bool" where
  "IsValid VInvalid = False"
| "IsValid data = True"

fun GetType :: "vtkVariant \<Rightarrow> vtk_type" where
  "GetType VInvalid = VTK_OTHER 0"
| "GetType (VString v) = VTK_STRING"
| "GetType (VFloat v) = VTK_FLOAT"
| "GetType (VDouble v) = VTK_DOUBLE"
| "GetType (VChar v) = VTK_CHAR"
| "GetType (VUnsignedChar v) = VTK_UNSIGNED_CHAR"
| "GetType (VSignedChar v) = VTK_SIGNED_CHAR"
| "GetType (VShort v) = VTK_SHORT"
| "GetType (VUnsignedShort v) = VTK_UNSIGNED_SHORT"
| "GetType (VInt v) = VTK_INT"
| "GetType (VUnsignedInt v) = VTK_UNSIGNED_INT"
| "GetType (VLong v) = VTK_LONG"
| "GetType (VUnsignedLong v) = VTK_UNSIGNED_LONG"
| "GetType (V__Int64 v) = VTK___INT64"
| "GetType (VUnsigned__Int64 v) = VTK_UNSIGNED___INT64"
| "GetType (VLongLong v) = VTK_LONG_LONG"
| "GetType (VUnsignedLongLong v) = VTK_UNSIGNED_LONG_LONG"
| "GetType (VObject obj) = VTK_OBJECT"
| "GetType (VOther t bytes) = VTK_OTHER t"

text \<open>
  What the build decides: whether the two preprocessor symbols that guard the 64-bit
  labels are defined, and whether plain \<^verbatim>\<open>char\<close> is signed.
\<close>

record build_config =
  VTK_TYPE_USE___INT64 :: bool
  VTK_TYPE_USE_LONG_LONG :: bool
  char_is_signed :: bool

text \<open>
  No overload takes a plain \<^verbatim>\<open>char\<close>: for the value of \<^verbatim>\<open>ToChar()\<close> overload resolution
  selects \<^verbatim>\<open>BindParameter(int, int)\<close>, the only candidate reached by an integral
  promotion, which keeps the value.
\<close>

definition promote_char :: "build_config \<Rightarrow> 8 word \<Rightarrow> 32 word" where
  "promote_char cfg c = (if char_is_signed cfg then scast c else ucast c)"

text \<open>
  The typed overloads are virtual, so \<^verbatim>\<open>this->BindParameter(index, ...)\<close> calls the
  overloads of the object's own class: they are the argument \<open>bind\<close>, which is
  \<^const>\<open>BindParameter\<close> for the base class.
\<close>

type_synonym bind_method = "int \<Rightarrow> bind_value \<Rightarrow> SQLQuery \<Rightarrow> bind_result"

definition default_branch :: "vtkVariant \<Rightarrow> SQLQuery \<Rightarrow> bind_result" where
  "default_branch data this = (False, [UnsupportedVariantType (GetType data)], this)"

definition BindParameter_variant ::
  "build_config \<Rightarrow> bind_method \<Rightarrow> int \<Rightarrow> vtkVariant \<Rightarrow> SQLQuery \<Rightarrow> bind_result" where
  "BindParameter_variant cfg bind index data this =
     (if \<not> IsValid data then (True, [], this)
      else case data of
          VString v \<Rightarrow> bind index (Arg_std_string v) this
        | VFloat v \<Rightarrow> bind index (Arg_float v) this
        | VDouble v \<Rightarrow> bind index (Arg_double v) this
        | VChar v \<Rightarrow> bind index (Arg_int (promote_char cfg v)) this
        | VUnsignedChar v \<Rightarrow> bind index (Arg_unsigned_char v) this
        | VSignedChar v \<Rightarrow> bind index (Arg_signed_char v) this
        | VShort v \<Rightarrow> bind index (Arg_short v) this
        | VUnsignedShort v \<Rightarrow> bind index (Arg_unsigned_short v) this
        | VInt v \<Rightarrow> bind index (Arg_int v) this
        | VUnsignedInt v \<Rightarrow> bind index (Arg_unsigned_int v) this
        | VLong v \<Rightarrow> bind index (Arg_long v) this
        | VUnsignedLong v \<Rightarrow> bind index (Arg_unsigned_long v) this
        | V__Int64 v \<Rightarrow>
            if VTK_TYPE_USE___INT64 cfg then bind index (Arg_Int64 v) this
            else default_branch data this
        | VUnsigned__Int64 v \<Rightarrow>
            if VTK_TYPE_USE___INT64 cfg then bind index (Arg_UInt64 v) this
            else default_branch data this
        | VLongLong v \<Rightarrow>
            if VTK_TYPE_USE_LONG_LONG cfg then bind index (Arg_Int64 v) this
            else default_branch data this
        | VUnsignedLongLong v \<Rightarrow>
            if VTK_TYPE_USE_LONG_LONG cfg then bind index (Arg_UInt64 v) this
            else default_branch data this
        | VObject obj \<Rightarrow> (False, [ObjectVariant], this)
        | _ \<Rightarrow> default_branch data this)"

text \<open>The types whose case label is compiled in and calls a typed overload.\<close>

fun has_typed_label :: "build_config \<Rightarrow> vtk_type \<Rightarrow> bool" where
  "has_typed_label cfg VTK___INT64 = VTK_TYPE_USE___INT64 cfg"
| "has_typed_label cfg VTK_UNSIGNED___INT64 = VTK_TYPE_USE___INT64 cfg"
| "has_typed_label cfg VTK_LONG_LONG = VTK_TYPE_USE_LONG_LONG cfg"
| "has_typed_label cfg VTK_UNSIGNED_LONG_LONG = VTK_TYPE_USE_LONG_LONG cfg"
| "has_typed_label cfg VTK_OBJECT = False"
| "has_typed_label cfg (VTK_OTHER t) = False"
| "has_typed_label cfg t = True"

text \<open>
  The error kinds of the specification, and the kind each message of the file stands
  for: \<open>Unsupported\<close> is ``this driver does not support bound parameters'',
  \<open>UnsupportedVariantKind\<close> is ``the kind of this dynamic value has no typed mapping''.
\<close>

datatype BindError = Unsupported | UnsupportedVariantKind

fun bind_error_of :: "diagnostic \<Rightarrow> BindError" where
  "bind_error_of NoBoundParameters = Unsupported"
| "bind_error_of ObjectVariant = UnsupportedVariantKind"
| "bind_error_of (UnsupportedVariantType t) = UnsupportedVariantKind"


section \<open>Sequences of base-class operations\<close>





section \<open>Properties of EscapeString\<close>

lemma EscapeString_loop_acc:
  "EscapeString_loop s d = d @ concat (map escape_char_spec s)"
  by (induction s arbitrary: d) (simp_all add: escape_char_spec_def)

lemma EscapeString_unquoted:
  "EscapeString s False = concat (map escape_char_spec s)"
  by (simp add: EscapeString_def EscapeString_loop_acc)

lemma count_quotes_escaped:
  "count_quotes (concat (map escape_char_spec s)) = 2 * count_quotes s"
  by (induction s) (simp_all add: count_quotes_def escape_char_spec_def)

lemma escaped_quote_free:
  "quote \<notin> set s \<Longrightarrow> concat (map escape_char_spec s) = s"
  by (induction s) (auto simp add: escape_char_spec_def)

lemma count_quotes_zero_iff:
  "count_quotes s = 0 \<longleftrightarrow> quote \<notin> set s"
  by (induction s) (auto simp add: count_quotes_def)

text \<open>
  Claim C4.  For every string \<open>s\<close> and flag \<open>q\<close>, \<^verbatim>\<open>EscapeString(s, q)\<close> (and the
  wrapping overload) is the string the specification describes: each single quote twice,
  every other character once, in order, with one quote before and one after exactly when
  \<open>q\<close> holds.  The three examples of the specification evaluate as stated.  Being a
  function of \<open>s\<close> and \<open>q\<close> alone, the result depends on nothing else.
\<close>

theorem EscapeString_meets_spec:
  "EscapeString s q = escape_spec s q
   \<and> EscapeString_wrapped s q = escape_spec s q
   \<and> EscapeString ''O'Brien'' True
       = [quote, CHR ''O'', quote, quote, CHR ''B'', CHR ''r'', CHR ''i'', CHR ''e'', CHR ''n'', quote]
   \<and> EscapeString ''abc'' False = ''abc''
   \<and> EscapeString [] True = [quote, quote]"
  by (simp add: EscapeString_def EscapeString_wrapped_def escape_spec_def EscapeString_loop_acc
      escape_char_spec_def)

text \<open>
  Claim C7.  Without surrounding quotes, \<^verbatim>\<open>EscapeString\<close> returns a string with no single
  quote as it is; in every case the result holds twice as many single quotes as the
  input, and escaping the result again holds four times as many.  Hence escaping twice
  gives the same as escaping once exactly for the strings with no single quote: nothing
  guards against processing a string a second time.
\<close>

theorem EscapeString_requoting:
  "(quote \<notin> set s \<longrightarrow> EscapeString s False = s)
   \<and> count_quotes (EscapeString s False) = 2 * count_quotes s
   \<and> count_quotes (EscapeString (EscapeString s False) False) = 4 * count_quotes s
   \<and> (EscapeString (EscapeString s False) False = EscapeString s False
        \<longleftrightarrow> quote \<notin> set s)"
proof -
  let ?e = "\<lambda>t. EscapeString t False"
  have once: "count_quotes (?e t) = 2 * count_quotes t" for t
    by (simp add: EscapeString_unquoted count_quotes_escaped)
  have free: "quote \<notin> set t \<Longrightarrow> ?e t = t" for t
    by (simp add: EscapeString_unquoted escaped_quote_free)
  have twice: "count_quotes (?e (?e s)) = 4 * count_quotes s"
    by (simp add: once)
  have idem: "?e (?e s) = ?e s \<longleftrightarrow> quote \<notin> set s"
  proof
    assume "?e (?e s) = ?e s"
    then have "count_quotes (?e (?e s)) = count_quotes (?e s)"
      by simp
    then have "count_quotes s = 0"
      by (simp add: once)
    then show "quote \<notin> set s"
      by (simp add: count_quotes_zero_iff)
  next
    assume "quote \<notin> set s"
    then show "?e (?e s) = ?e s"
      by (simp add: free)
  qed
  from once free twice idem show ?thesis
    by blast
qed

theorem EscapeString_requoting_witness:
  "quote \<notin> set ''abc'' \<and> EscapeString ''abc'' False = ''abc''
   \<and> count_quotes ''it's'' = 1
   \<and> count_quotes (EscapeString ''it's'' False) = 2
   \<and> count_quotes (EscapeString (EscapeString ''it's'' False) False) = 4
   \<and> EscapeString (EscapeString ''it's'' False) False \<noteq> EscapeString ''it's'' False"
proof -
  have a: "quote \<notin> set ''abc''"
    by simp
  have b: "count_quotes ''it's'' = 1" and c: "quote \<in> set ''it's''"
    by (simp_all add: count_quotes_def)
  from a b c EscapeString_requoting [of "''abc''"] EscapeString_requoting [of "''it's''"]
  show ?thesis
    by simp
qed


section \<open>Properties of SetQuery\<close>

lemma string_compare_zero_iff: "string_compare a b = 0 \<longleftrightarrow> a = b"
  by (induction a b rule: string_compare.induct) simp_all

lemma differing_test: "logical_not (string_compare a b) = 0 \<longleftrightarrow> a \<noteq> b"
  by (simp add: logical_not_def string_compare_zero_iff)

lemma copy_chars_take: "0 < n \<Longrightarrow> copy_chars n xs = take n xs"
  by (induction xs arbitrary: n) (auto simp add: take_Cons')

lemma SetQuery_buffer_holds_argument:
  "string_of_buffer (SetQuery_buffer s) = takeWhile (\<lambda>c. c \<noteq> NUL) s"
proof -
  have "take (strlen (take (Suc (strlen (s @ [NUL]))) (s @ [NUL])))
          (take (Suc (strlen (s @ [NUL]))) (s @ [NUL])) = takeWhile (\<lambda>c. c \<noteq> NUL) s"
    by (induction s) simp_all
  then show ?thesis
    by (simp add: SetQuery_buffer_def string_of_buffer_def c_str_def copy_chars_take)
qed

text \<open>
  The text \<^verbatim>\<open>SetQuery\<close> leaves.  The early return of the second test is taken when both
  texts are non-empty and differ, and then the old text stays.  Otherwise an empty
  argument clears the text, and a non-empty argument leaves what the unwritten array
  held up to its first zero, whatever the argument is.
\<close>

lemma SetQuery_stored_text:
  "GetQuery (snd (SetQuery unwritten t this)) =
     (if m_Query this \<noteq> [] \<and> t \<noteq> [] \<and> m_Query this \<noteq> t then m_Query this
      else if t = [] then []
      else string_of_buffer unwritten)"
  by (simp add: SetQuery_def GetQuery_def Modified_def Let_def differing_test)

text \<open>
  Claim C1 says that \<^verbatim>\<open>SetQuery(t)\<close> returns success and that \<^verbatim>\<open>GetQuery()\<close> then returns
  \<open>t\<close>, whatever was stored before.  The code returns success but does not store
  \<open>t\<close>.  On a new object, \<^verbatim>\<open>SetQuery("SELECT 1")\<close> assigns \<^verbatim>\<open>m_Query\<close> from the new array
  before the loop has written to it: where that array holds zeros, \<^verbatim>\<open>GetQuery()\<close>
  returns the empty text, while the array that nothing reads ends up holding
  \<^verbatim>\<open>"SELECT 1"\<close>.  Besides, where a non-empty text is stored and a different non-empty text
  is set, the test \<^verbatim>\<open>!m_Query.compare( queryString ) == 0\<close> holds and the method returns
  before it replaces anything or advances the modification stamp: on an object that
  holds \<^verbatim>\<open>"SELECT 1"\<close>, \<^verbatim>\<open>SetQuery("SELECT 2")\<close> returns \<^verbatim>\<open>true\<close> and leaves the object as it
  was.
\<close>

theorem SetQuery_does_not_store_argument:
  "fst (SetQuery (replicate 9 NUL) ''SELECT 1'' (SQLQuery_ctor 0)) = True
   \<and> GetQuery (snd (SetQuery (replicate 9 NUL) ''SELECT 1'' (SQLQuery_ctor 0))) = []
   \<and> string_of_buffer (SetQuery_buffer ''SELECT 1'') = ''SELECT 1''
   \<and> SetQuery (replicate 9 NUL) ''SELECT 2'' ((SQLQuery_ctor 0)\<lparr>m_Query := ''SELECT 1''\<rparr>)
       = (True, (SQLQuery_ctor 0)\<lparr>m_Query := ''SELECT 1''\<rparr>)"
proof -
  have zeros: "replicate 9 NUL = [NUL, NUL, NUL, NUL, NUL, NUL, NUL, NUL, NUL]"
    by (simp add: numeral_eq_Suc)
  have first: "SetQuery (replicate 9 NUL) ''SELECT 1'' (SQLQuery_ctor 0)
      = (True, \<lparr>m_Query = [], m_Database = None, m_Active = False, MTime = 1\<rparr>)"
    by (simp add: zeros SetQuery_def SQLQuery_ctor_def Modified_def Let_def
        string_of_buffer_def)
  have buffer: "string_of_buffer (SetQuery_buffer ''SELECT 1'') = ''SELECT 1''"
    by (simp add: SetQuery_buffer_holds_argument)
  have second:
    "SetQuery (replicate 9 NUL) ''SELECT 2'' ((SQLQuery_ctor 0)\<lparr>m_Query := ''SELECT 1''\<rparr>)
       = (True, (SQLQuery_ctor 0)\<lparr>m_Query := ''SELECT 1''\<rparr>)"
    by (simp add: SetQuery_def SQLQuery_ctor_def logical_not_def)
  from first buffer second show ?thesis
    by (simp add: GetQuery_def)
qed

text \<open>
  Claim C9.  \<^verbatim>\<open>SetQuery\<close> never reports failure: for every object and every argument,
  empty or not, equal to the stored text or not, and whatever the newly allocated array
  holds, it returns \<^verbatim>\<open>true\<close>.
\<close>

theorem SetQuery_returns_true:
  "fst (SetQuery unwritten queryString this) = True"
  by (simp add: SetQuery_def Let_def)


section \<open>Properties of the transaction methods\<close>

text \<open>
  Claim C8.  In the base class \<^verbatim>\<open>BeginTransaction\<close>, \<^verbatim>\<open>CommitTransaction\<close> and
  \<^verbatim>\<open>RollbackTransaction\<close> each return \<^verbatim>\<open>true\<close> and leave the whole object (text, active
  flag, database reference, modification stamp) as it was.
\<close>

theorem transactions_succeed_without_effect:
  "BeginTransaction this = (True, this)
   \<and> CommitTransaction this = (True, this)
   \<and> RollbackTransaction this = (True, this)"
  by (simp add: BeginTransaction_def CommitTransaction_def RollbackTransaction_def)


section \<open>Properties of parameter binding\<close>

lemma BindParameter_base: "BindParameter index v this = (False, [NoBoundParameters], this)"
  by (cases v) simp_all

text \<open>
  Claim C3.  In the base class every typed overload of \<^verbatim>\<open>BindParameter\<close>, for every index
  and every value, and \<^verbatim>\<open>ClearParameterBindings\<close> return \<^verbatim>\<open>false\<close>, report exactly the
  message that the driver does not support bound parameters (the error kind
  \<open>Unsupported\<close>), and leave the object unchanged: nothing is stored.
\<close>

theorem typed_binds_unsupported:
  "BindParameter index v this = (False, [NoBoundParameters], this)
   \<and> ClearParameterBindings this = (False, [NoBoundParameters], this)
   \<and> bind_error_of NoBoundParameters = Unsupported"
  by (simp add: BindParameter_base ClearParameterBindings_def)

text \<open>
  Claim C5.  For every index, binding the invalid (null) variant returns \<^verbatim>\<open>true\<close>, reports
  nothing and leaves the object unchanged, whatever the typed overloads of the object's
  class are: none of them is called.
\<close>

theorem null_variant_is_noop:
  "BindParameter_variant cfg bind index VInvalid this = (True, [], this)"
  by (simp add: BindParameter_variant_def)

text \<open>
  Claim C2 says that a variant of every supported primitive kind, blobs included, is
  dispatched to the matching typed overload, and that no kind falls into the default
  branch.  The \<^verbatim>\<open>switch\<close> has no label that leads to the blob overload
  \<^verbatim>\<open>BindParameter(int, const void*, size_t)\<close>: a valid variant whose type is none of the
  labels, here one holding three bytes, takes the default branch and reports that its
  type is not supported, which is not what the typed blob overload returns and
  reports.
\<close>

theorem BindParameter_variant_blob_counterexample:
  "BindParameter_variant
     \<lparr>VTK_TYPE_USE___INT64 = True, VTK_TYPE_USE_LONG_LONG = True, char_is_signed = True\<rparr>
     BindParameter 0 (VOther 14 [1, 2, 3]) (SQLQuery_ctor 0)
     = (False, [UnsupportedVariantType (VTK_OTHER 14)], SQLQuery_ctor 0)
   \<and> BindParameter 0 (Arg_blob [1, 2, 3] 3) (SQLQuery_ctor 0)
     = (False, [NoBoundParameters], SQLQuery_ctor 0)
   \<and> BindParameter_variant
     \<lparr>VTK_TYPE_USE___INT64 = True, VTK_TYPE_USE_LONG_LONG = True, char_is_signed = True\<rparr>
     BindParameter 0 (VOther 14 [1, 2, 3]) (SQLQuery_ctor 0)
     \<noteq> BindParameter 0 (Arg_blob [1, 2, 3] 3) (SQLQuery_ctor 0)"
  by (simp add: BindParameter_variant_def default_branch_def)

text \<open>
  Claim C2, as the code has it.  For every index and every class of typed overloads,
  binding a variant of type string, float, double, unsigned char, signed char, short,
  unsigned short, int, unsigned int, long or unsigned long returns what the typed
  overload of that type returns for the value held (a string goes to the
  \<^verbatim>\<open>std::string\<close> overload); a plain \<^verbatim>\<open>char\<close> goes, promoted, to the \<^verbatim>\<open>int\<close> overload.
  The two \<^verbatim>\<open>__int64\<close> types and the two \<^verbatim>\<open>long long\<close> types go to the 64-bit overloads
  where the build defines \<^verbatim>\<open>VTK_TYPE_USE___INT64\<close>, respectively
  \<^verbatim>\<open>VTK_TYPE_USE_LONG_LONG\<close>, and take the default branch where it does not.  A
  variant of any other type but \<^verbatim>\<open>VTK_OBJECT\<close> takes the default branch too; no label
  leads to the blob overload or to the two C-string overloads.
\<close>

theorem BindParameter_variant_dispatch:
  "BindParameter_variant cfg bind index (VString s) this = bind index (Arg_std_string s) this
   \<and> BindParameter_variant cfg bind index (VFloat f) this = bind index (Arg_float f) this
   \<and> BindParameter_variant cfg bind index (VDouble d) this = bind index (Arg_double d) this
   \<and> BindParameter_variant cfg bind index (VChar c) this
       = bind index (Arg_int (promote_char cfg c)) this
   \<and> BindParameter_variant cfg bind index (VUnsignedChar uc) this
       = bind index (Arg_unsigned_char uc) this
   \<and> BindParameter_variant cfg bind index (VSignedChar sc) this
       = bind index (Arg_signed_char sc) this
   \<and> BindParameter_variant cfg bind index (VShort sh) this = bind index (Arg_short sh) this
   \<and> BindParameter_variant cfg bind index (VUnsignedShort us) this
       = bind index (Arg_unsigned_short us) this
   \<and> BindParameter_variant cfg bind index (VInt i) this = bind index (Arg_int i) this
   \<and> BindParameter_variant cfg bind index (VUnsignedInt ui) this
       = bind index (Arg_unsigned_int ui) this
   \<and> BindParameter_variant cfg bind index (VLong l) this = bind index (Arg_long l) this
   \<and> BindParameter_variant cfg bind index (VUnsignedLong ul) this
       = bind index (Arg_unsigned_long ul) this
   \<and> (VTK_TYPE_USE___INT64 cfg \<longrightarrow>
        BindParameter_variant cfg bind index (V__Int64 m) this = bind index (Arg_Int64 m) this
        \<and> BindParameter_variant cfg bind index (VUnsigned__Int64 um) this
            = bind index (Arg_UInt64 um) this)
   \<and> (VTK_TYPE_USE_LONG_LONG cfg \<longrightarrow>
        BindParameter_variant cfg bind index (VLongLong ll) this = bind index (Arg_Int64 ll) this
        \<and> BindParameter_variant cfg bind index (VUnsignedLongLong ull) this
            = bind index (Arg_UInt64 ull) this)
   \<and> (\<not> VTK_TYPE_USE___INT64 cfg \<longrightarrow>
        BindParameter_variant cfg bind index (V__Int64 m) this
          = (False, [UnsupportedVariantType VTK___INT64], this)
        \<and> BindParameter_variant cfg bind index (VUnsigned__Int64 um) this
            = (False, [UnsupportedVariantType VTK_UNSIGNED___INT64], this))
   \<and> (\<not> VTK_TYPE_USE_LONG_LONG cfg \<longrightarrow>
        BindParameter_variant cfg bind index (VLongLong ll) this
          = (False, [UnsupportedVariantType VTK_LONG_LONG], this)
        \<and> BindParameter_variant cfg bind index (VUnsignedLongLong ull) this
            = (False, [UnsupportedVariantType VTK_UNSIGNED_LONG_LONG], this))
   \<and> BindParameter_variant cfg bind index (VOther t bytes) this
       = (False, [UnsupportedVariantType (VTK_OTHER t)], this)"
  by (simp add: BindParameter_variant_def default_branch_def)

theorem BindParameter_variant_dispatch_witness:
  "VTK_TYPE_USE___INT64 \<lparr>VTK_TYPE_USE___INT64 = True, VTK_TYPE_USE_LONG_LONG = True,
      char_is_signed = True\<rparr>
   \<and> VTK_TYPE_USE_LONG_LONG \<lparr>VTK_TYPE_USE___INT64 = True, VTK_TYPE_USE_LONG_LONG = True,
      char_is_signed = True\<rparr>
   \<and> \<not> VTK_TYPE_USE___INT64 \<lparr>VTK_TYPE_USE___INT64 = False, VTK_TYPE_USE_LONG_LONG = False,
      char_is_signed = True\<rparr>
   \<and> \<not> VTK_TYPE_USE_LONG_LONG \<lparr>VTK_TYPE_USE___INT64 = False, VTK_TYPE_USE_LONG_LONG = False,
      char_is_signed = True\<rparr>
   \<and> BindParameter_variant \<lparr>VTK_TYPE_USE___INT64 = True, VTK_TYPE_USE_LONG_LONG = True,
        char_is_signed = True\<rparr> BindParameter 2 (VLongLong 5) (SQLQuery_ctor 0)
       = BindParameter 2 (Arg_Int64 5) (SQLQuery_ctor 0)
   \<and> BindParameter_variant \<lparr>VTK_TYPE_USE___INT64 = True, VTK_TYPE_USE_LONG_LONG = True,
        char_is_signed = True\<rparr> BindParameter 2 (VUnsigned__Int64 5) (SQLQuery_ctor 0)
       = BindParameter 2 (Arg_UInt64 5) (SQLQuery_ctor 0)
   \<and> BindParameter_variant \<lparr>VTK_TYPE_USE___INT64 = False, VTK_TYPE_USE_LONG_LONG = False,
        char_is_signed = True\<rparr> BindParameter 2 (VLongLong 5) (SQLQuery_ctor 0)
       = (False, [UnsupportedVariantType VTK_LONG_LONG], SQLQuery_ctor 0)
   \<and> BindParameter_variant \<lparr>VTK_TYPE_USE___INT64 = False, VTK_TYPE_USE_LONG_LONG = False,
        char_is_signed = True\<rparr> BindParameter 2 (V__Int64 5) (SQLQuery_ctor 0)
       = (False, [UnsupportedVariantType VTK___INT64], SQLQuery_ctor 0)"
  using BindParameter_variant_dispatch
          [of "\<lparr>VTK_TYPE_USE___INT64 = True, VTK_TYPE_USE_LONG_LONG = True, char_is_signed = True\<rparr>"
              BindParameter 2 _ "SQLQuery_ctor 0" _ _ _ _ _ _ _ _ _ _ _ 5 5 5 5]
        BindParameter_variant_dispatch
          [of "\<lparr>VTK_TYPE_USE___INT64 = False, VTK_TYPE_USE_LONG_LONG = False, char_is_signed = True\<rparr>"
              BindParameter 2 _ "SQLQuery_ctor 0" _ _ _ _ _ _ _ _ _ _ _ 5 5 5 5]
  by simp

text \<open>
  Claim C6.  Binding a valid variant whose type has no case label leading to a typed
  overload (the object type, any type outside the labels, a 64-bit type whose labels the
  build leaves out) returns \<^verbatim>\<open>false\<close>, leaves the object unchanged and reports exactly
  one message, which is the one for \<^verbatim>\<open>VTK_OBJECT\<close> or the one naming the unsupported
  type: both of the kind \<open>UnsupportedVariantKind\<close>, and never the message that the
  driver does not support bound parameters.  This holds whatever the typed overloads of
  the object's class are.
\<close>

theorem unmapped_variant_kind_error:
  assumes "IsValid data" and "\<not> has_typed_label cfg (GetType data)"
  shows "\<exists>d. BindParameter_variant cfg bind index data this = (False, [d], this)
            \<and> (d = ObjectVariant \<or> d = UnsupportedVariantType (GetType data))
            \<and> d \<noteq> NoBoundParameters
            \<and> bind_error_of d = UnsupportedVariantKind"
  using assms by (cases data) (simp_all add: BindParameter_variant_def default_branch_def)

theorem unmapped_variant_kind_error_witness:
  "IsValid (VObject 7)
   \<and> \<not> has_typed_label \<lparr>VTK_TYPE_USE___INT64 = False, VTK_TYPE_USE_LONG_LONG = True,
          char_is_signed = True\<rparr> (GetType (VObject 7))
   \<and> (\<exists>d. BindParameter_variant \<lparr>VTK_TYPE_USE___INT64 = False, VTK_TYPE_USE_LONG_LONG = True,
              char_is_signed = True\<rparr> BindParameter 3 (VObject 7) (SQLQuery_ctor 0)
            = (False, [d], SQLQuery_ctor 0)
          \<and> (d = ObjectVariant \<or> d = UnsupportedVariantType (GetType (VObject 7)))
          \<and> d \<noteq> NoBoundParameters
          \<and> bind_error_of d = UnsupportedVariantKind)"
proof -
  let ?cfg = "\<lparr>VTK_TYPE_USE___INT64 = False, VTK_TYPE_USE_LONG_LONG = True, char_is_signed = True\<rparr>"
  have v: "IsValid (VObject 7)"
    by simp
  have u: "\<not> has_typed_label ?cfg (GetType (VObject 7))"
    by simp
  from v u unmapped_variant_kind_error [OF v u, of BindParameter 3 "SQLQuery_ctor 0"]
  show ?thesis
    by blast
qed


section \<open>The active flag\<close>







end
